theory Spec2Isabelle
  imports Complex_Main
begin

section \<open>The solar-portfolio web component\<close>

text \<open>
  A shallow embedding of \<^verbatim>\<open>solar-portfolio.ts\<close>: the utilities
  \<^verbatim>\<open>isWebGLAvailable\<close> and \<^verbatim>\<open>prefersReducedMotion\<close>, the class
  \<^verbatim>\<open>ConstellationScene\<close> and the custom element \<^verbatim>\<open>SolarPortfolio\<close>.
  Objects are records, the DOM content of the element's container is a datatype, and every
  method is a function from the state before the call to the state after it. The browser
  (event dispatch, animation frames, fetch) and Three.js are outside the source; what the
  model takes from them is said where it is used.
\<close>

subsection \<open>Types\<close>

text \<open>\<^verbatim>\<open>interface PortfolioItem\<close>; \<open>id\<close> and \<open>image\<close> are renamed, both being HOL constants.\<close>

record PortfolioItem =
  item_id :: string
  title :: string
  description :: string
  item_image :: string
  tags :: "string list"
  url :: string

text \<open>
  \<^verbatim>\<open>interface PortfolioData { items: PortfolioItem[] }\<close>, as parsed from JSON: the
  field may be missing.
\<close>

datatype PortfolioData = PortfolioData (data_items: "PortfolioItem list option")

subsection \<open>Utilities\<close>

text \<open>
  What the two utilities read from the browser. \<open>getContext_webgl\<close> and
  \<open>getContext_experimental\<close> are the results of the two \<^verbatim>\<open>canvas.getContext\<close> calls:
  \<open>None\<close> when the call throws, otherwise whether the context returned is truthy.
\<close>

record Platform =
  has_WebGLRenderingContext :: bool
  getContext_webgl :: "bool option"
  getContext_experimental :: "bool option"
  reduced_motion_matches :: bool

definition isWebGLAvailable :: "Platform \<Rightarrow> bool" where
  "isWebGLAvailable p =
     (if \<not> has_WebGLRenderingContext p then False
      else case getContext_webgl p of
             None \<Rightarrow> False
           | Some True \<Rightarrow> True
           | Some False \<Rightarrow>
               (case getContext_experimental p of None \<Rightarrow> False | Some b \<Rightarrow> b))"

definition prefersReducedMotion :: "Platform \<Rightarrow> bool" where
  "prefersReducedMotion p = reduced_motion_matches p"

subsection \<open>Array.prototype.forEach\<close>

text \<open>
  \<^verbatim>\<open>xs.forEach((x, i) => body)\<close> where the body updates a state: the callback gets
  the element and its index, from index 0 upwards.
\<close>

fun forEach_from :: "nat \<Rightarrow> ('a \<Rightarrow> nat \<Rightarrow> 's \<Rightarrow> 's) \<Rightarrow> 'a list \<Rightarrow> 's \<Rightarrow> 's" where
  "forEach_from i f [] s = s"
| "forEach_from i f (x # xs) s = forEach_from (Suc i) f xs (f x i s)"

definition forEach :: "('a \<Rightarrow> nat \<Rightarrow> 's \<Rightarrow> 's) \<Rightarrow> 'a list \<Rightarrow> 's \<Rightarrow> 's" where
  "forEach f xs s = forEach_from 0 f xs s"

subsection \<open>ConstellationScene\<close>

type_synonym vec3 = "real \<times> real \<times> real"

text \<open>
  Three.js resources carry a flag for \<^verbatim>\<open>dispose()\<close>: the model takes from Three.js
  that disposing releases the resource and that disposing a released resource does nothing.
\<close>

record Texture =
  tex_src :: string
  tex_disposed :: bool

text \<open>
  A \<^verbatim>\<open>THREE.Mesh\<close> with its \<^verbatim>\<open>PlaneGeometry\<close> and
  \<^verbatim>\<open>MeshStandardMaterial\<close>. \<open>userData_index\<close> is \<^verbatim>\<open>mesh.userData.index\<close>,
  \<open>None\<close> when it is not a number.
\<close>

record Mesh =
  mesh_position :: vec3
  userData_index :: "nat option"
  geometry_disposed :: bool
  material_disposed :: bool
  material_map :: "string option"
  material_color :: string

text \<open>A label button; \<open>label_click_index\<close> is the \<open>i\<close> its click listener closes over.\<close>

record Label =
  label_textContent :: string
  label_aria :: string
  label_click_index :: nat

text \<open>The star field: 120 points; their coordinates are floating-point and left out.\<close>

record Points =
  points_count :: nat
  points_geometry_disposed :: bool
  points_material_disposed :: bool

text \<open>
  The fields of the class, and what the instance has registered with the browser:
  \<open>raf_requested\<close> are the ids of its \<^verbatim>\<open>requestAnimationFrame\<close> requests that have
  neither run nor been cancelled, \<open>raf_next\<close> the id the next request gets,
  \<open>resize_listening\<close> and \<open>click_listening\<close> whether \<^verbatim>\<open>this.resize\<close> is
  registered on the window and \<^verbatim>\<open>this.handleCanvasClick\<close> on the canvas (each is one
  function per instance, and \<^verbatim>\<open>addEventListener\<close> registers a function once).
\<close>

record ConstellationScene =
  sc_items :: "PortfolioItem list"
  accentColor :: string
  thumbnailMeshes :: "Mesh list"
  textures :: "Texture option list"
  labelElements :: "Label list"
  basePositions :: "vec3 list"
  currentPositions :: "vec3 list"
  stars :: "Points option"
  animId :: nat
  raf_requested :: "nat list"
  raf_next :: nat
  resize_listening :: bool
  click_listening :: bool
  renderer_disposed :: bool

definition createStars :: "ConstellationScene \<Rightarrow> ConstellationScene" where
  "createStars sc =
     sc\<lparr>stars := Some \<lparr>points_count = 120, points_geometry_disposed = False,
                          points_material_disposed = False\<rparr>\<rparr>"

text \<open>The layout table of \<^verbatim>\<open>createThumbnails\<close>.\<close>

definition spread :: "vec3 list" where
  "spread =
     [(-1.8, 0.8, -1.5),
      (-0.5, 1.0, 0.8),
      (0.8, 0.9, -0.8),
      (1.9, 0.6, 1.2),
      (-1.6, -0.2, 1.0),
      (-0.4, 0.1, -1.2),
      (0.6, -0.3, 1.5),
      (1.7, -0.1, -0.5),
      (-1.0, -0.9, -0.3),
      (1.1, -0.8, 0.6)]"

text \<open>
  The body of the \<^verbatim>\<open>forEach\<close> of \<^verbatim>\<open>createThumbnails\<close>, up to the call of
  \<^verbatim>\<open>loader.load\<close>, whose callbacks are \<open>texture_loaded\<close> and \<open>texture_failed\<close> below.
\<close>

definition new_Mesh :: "vec3 \<Rightarrow> nat \<Rightarrow> Mesh" where
  "new_Mesh basePos i =
     \<lparr>mesh_position = basePos, userData_index = Some i,
      geometry_disposed = False, material_disposed = False,
      material_map = None, material_color = ''0xffffff''\<rparr>"

definition thumbnail_body :: "PortfolioItem \<Rightarrow> nat \<Rightarrow> ConstellationScene \<Rightarrow> ConstellationScene" where
  "thumbnail_body item i sc =
     (let pos = spread ! (i mod length spread);
          basePos = pos;
          mesh = new_Mesh basePos i
      in sc\<lparr>basePositions := basePositions sc @ [basePos],
             currentPositions := currentPositions sc @ [basePos],
             thumbnailMeshes := thumbnailMeshes sc @ [mesh],
             textures := textures sc @ [None]\<rparr>)"

definition createThumbnails :: "ConstellationScene \<Rightarrow> ConstellationScene" where
  "createThumbnails sc = forEach thumbnail_body (sc_items sc) sc"

definition new_Label :: "PortfolioItem \<Rightarrow> nat \<Rightarrow> Label" where
  "new_Label item i =
     \<lparr>label_textContent = title item, label_aria = ''View '' @ title item,
      label_click_index = i\<rparr>"

definition label_body :: "PortfolioItem \<Rightarrow> nat \<Rightarrow> ConstellationScene \<Rightarrow> ConstellationScene" where
  "label_body item i sc =
     (let btn = new_Label item i
      in sc\<lparr>labelElements := labelElements sc @ [btn]\<rparr>)"

definition createLabels :: "ConstellationScene \<Rightarrow> ConstellationScene" where
  "createLabels sc = forEach label_body (sc_items sc) sc"

text \<open>
  \<^verbatim>\<open>animate\<close>: requests the next frame and keeps its id. The rest of the frame
  (the orbital movement of the meshes, the projection of the labels, the draw call) is
  floating-point arithmetic on the clock and the camera and is not modelled:
  \<open>mesh_position\<close> and \<open>currentPositions\<close> are the values at construction.
\<close>

definition animate :: "ConstellationScene \<Rightarrow> ConstellationScene" where
  "animate sc =
     sc\<lparr>animId := raf_next sc,
        raf_requested := raf_requested sc @ [raf_next sc],
        raf_next := Suc (raf_next sc)\<rparr>"

text \<open>The constructor: \<^verbatim>\<open>new ConstellationScene(container, labelLayer, items, accent, onItemClick)\<close>.\<close>

definition new_ConstellationScene :: "PortfolioItem list \<Rightarrow> string \<Rightarrow> ConstellationScene" where
  "new_ConstellationScene its accent =
     (let sc0 = \<lparr>sc_items = its, accentColor = accent, thumbnailMeshes = [], textures = [],
                 labelElements = [], basePositions = [], currentPositions = [],
                 stars = None, animId = 0, raf_requested = [], raf_next = 1,
                 resize_listening = False, click_listening = False,
                 renderer_disposed = False\<rparr>;
          sc1 = createStars sc0;
          sc2 = createThumbnails sc1;
          sc3 = createLabels sc2;
          sc4 = sc3\<lparr>resize_listening := True\<rparr>;
          sc5 = sc4\<lparr>click_listening := True\<rparr>
      in animate sc5)"

text \<open>The two callbacks given to \<^verbatim>\<open>loader.load\<close> for item \<open>i\<close>.\<close>

definition texture_loaded :: "nat \<Rightarrow> ConstellationScene \<Rightarrow> ConstellationScene" where
  "texture_loaded i sc =
     (if i < length (sc_items sc) then
        let src = item_image (sc_items sc ! i)
        in sc\<lparr>thumbnailMeshes :=
                 (thumbnailMeshes sc)[i := (thumbnailMeshes sc ! i)\<lparr>material_map := Some src\<rparr>],
               textures := (textures sc)[i := Some \<lparr>tex_src = src, tex_disposed = False\<rparr>]\<rparr>
      else sc)"

definition texture_failed :: "nat \<Rightarrow> ConstellationScene \<Rightarrow> ConstellationScene" where
  "texture_failed i sc =
     (if i < length (sc_items sc) then
        sc\<lparr>thumbnailMeshes :=
              (thumbnailMeshes sc)[i := (thumbnailMeshes sc ! i)\<lparr>material_color := accentColor sc\<rparr>]\<rparr>
      else sc)"

text \<open>
  \<^verbatim>\<open>handleCanvasClick\<close>: \<open>hits\<close> are the objects of
  \<^verbatim>\<open>raycaster.intersectObjects(this.thumbnailMeshes)\<close>, nearest first. The result is the
  index given to \<^verbatim>\<open>onItemClick\<close>, \<open>None\<close> when the callback is not called.
\<close>

definition handleCanvasClick :: "ConstellationScene \<Rightarrow> Mesh list \<Rightarrow> nat option" where
  "handleCanvasClick sc hits =
     (case hits of
        [] \<Rightarrow> None
      | h # _ \<Rightarrow> (case userData_index h of None \<Rightarrow> None | Some idx \<Rightarrow> Some idx))"

text \<open>A click on the \<open>j\<close>-th label button: the index its listener gives to \<^verbatim>\<open>onItemClick\<close>.\<close>

definition label_click :: "ConstellationScene \<Rightarrow> nat \<Rightarrow> nat option" where
  "label_click sc j =
     (if j < length (labelElements sc) then Some (label_click_index (labelElements sc ! j))
      else None)"

definition dispose_mesh :: "Mesh \<Rightarrow> Mesh" where
  "dispose_mesh m = m\<lparr>geometry_disposed := True, material_disposed := True\<rparr>"

definition dispose_texture :: "Texture option \<Rightarrow> Texture option" where
  "dispose_texture t = (case t of None \<Rightarrow> None | Some x \<Rightarrow> Some (x\<lparr>tex_disposed := True\<rparr>))"

definition destroy :: "ConstellationScene \<Rightarrow> ConstellationScene" where
  "destroy sc =
     (let sc1 = sc\<lparr>raf_requested := removeAll (animId sc) (raf_requested sc)\<rparr>;
          sc2 = sc1\<lparr>resize_listening := False\<rparr>;
          sc3 = sc2\<lparr>click_listening := False\<rparr>;
          sc4 = sc3\<lparr>renderer_disposed := True\<rparr>;
          sc5 = sc4\<lparr>thumbnailMeshes := map dispose_mesh (thumbnailMeshes sc4)\<rparr>;
          sc6 = sc5\<lparr>textures := map dispose_texture (textures sc5)\<rparr>
      in case stars sc6 of
           None \<Rightarrow> sc6
         | Some st \<Rightarrow> sc6\<lparr>stars := Some (st\<lparr>points_geometry_disposed := True,
                                              points_material_disposed := True\<rparr>)\<rparr>)"

text \<open>
  What happens to a scene between its construction and its teardown: the browser runs the
  requested frame \<open>fid\<close> (only a request still pending runs), or an image load settles.
\<close>

datatype scene_event =
    AnimationFrame nat
  | TextureLoaded nat
  | TextureFailed nat

fun scene_step :: "scene_event \<Rightarrow> ConstellationScene \<Rightarrow> ConstellationScene" where
  "scene_step (AnimationFrame fid) sc =
     (if fid \<in> set (raf_requested sc)
      then animate (sc\<lparr>raf_requested := removeAll fid (raf_requested sc)\<rparr>)
      else sc)"
| "scene_step (TextureLoaded i) sc = texture_loaded i sc"
| "scene_step (TextureFailed i) sc = texture_failed i sc"

definition scene_run :: "scene_event list \<Rightarrow> ConstellationScene \<Rightarrow> ConstellationScene" where
  "scene_run evs sc = fold scene_step evs sc"

subsection \<open>The custom element: state\<close>

datatype key = Escape | ArrowLeft | ArrowRight | Enter | Space | OtherKey string

text \<open>
  The closure \<^verbatim>\<open>keyHandler\<close> that \<^verbatim>\<open>showCard\<close> creates: it closes over
  \<^verbatim>\<open>index\<close>, \<^verbatim>\<open>hasPrev\<close> and \<^verbatim>\<open>hasNext\<close>. Each call of \<^verbatim>\<open>showCard\<close>
  creates a new function object; \<open>kh_id\<close> is its identity.
\<close>

record KeyHandler =
  kh_id :: nat
  kh_index :: int
  kh_hasPrev :: bool
  kh_hasNext :: bool

text \<open>
  The \<^verbatim>\<open>innerHTML\<close> that \<^verbatim>\<open>showCard\<close> gives the overlay: whether the template
  has the previous and the next button, the item whose strings the template interpolates,
  and the \<^verbatim>\<open>index\<close> the listeners of the buttons close over. What the HTML parser
  makes of the interpolated strings (character references decoded, markup inside them
  turned into elements) is not modelled.
\<close>

record CardView =
  nav_prev :: bool
  nav_next :: bool
  card_item :: PortfolioItem
  nav_index :: int

text \<open>
  The element \<^verbatim>\<open>#card-overlay\<close>: its class \<^verbatim>\<open>active\<close>, its content, the number of
  click listeners added to it, and its property \<^verbatim>\<open>_keyHandler\<close>.
\<close>

record Overlay =
  ov_active :: bool
  ov_content :: "CardView option"
  ov_click_listeners :: nat
  ov_keyHandler :: "KeyHandler option"

text \<open>
  A card of the grid: the value given to \<^verbatim>\<open>setAttribute("aria-label", ...)\<close>, and
  the \<open>i\<close> its listeners close over. The card's \<^verbatim>\<open>innerHTML\<close> (image, heading and
  tags) is the item's strings interpolated into HTML and parsed; the elements the parser
  builds from them are not modelled.
\<close>

record GridCard =
  card_aria_label :: string
  card_index :: nat

text \<open>
  The four notices of class \<^verbatim>\<open>fallback-notice\<close>: "No data-json attribute provided.",
  "Failed to load portfolio data.", "WebGL is unavailable - showing static grid view." and
  "Reduced-motion preference detected - showing static grid."
\<close>

datatype notice = NoDataJson | FailedToLoad | WebGLUnavailable | ReducedMotionDetected

text \<open>The children of \<^verbatim>\<open>this.container\<close>.\<close>

datatype Node =
    FallbackNotice notice
  | PosterImg string
  | LoadingMsg
  | GridWrap "notice list" "GridCard list" Overlay
  | ConstellationWrap Overlay

text \<open>
  The responses of \<^verbatim>\<open>fetch\<close>: a rejection, or a status with a body. The body does
  not parse, or parses to \<^verbatim>\<open>null\<close> (reading \<^verbatim>\<open>data.items\<close> then throws), or
  parses to a document.
\<close>

datatype Body = Unparsable | JsonNull | Json PortfolioData

datatype Response = FetchRejected | HttpResponse nat Body

datatype LoadError = NetworkFailure | HttpError nat | SyntaxError | TypeError

text \<open>
  The fields of the class, the four observed attributes, and the browser state the element
  touches: \<open>document_keydown\<close> are the \<^verbatim>\<open>keydown\<close> listeners registered on
  \<^verbatim>\<open>document\<close> in registration order, \<open>fetches\<close> the requests in flight (an id and
  the URL). \<open>detached_scenes\<close> is a ghost field: the scenes the element no longer refers to,
  in the state in which it let go of them.
\<close>

record SolarPortfolio =
  attr_data_json :: "string option"
  attr_variant :: "string option"
  attr_poster :: "string option"
  attr_accent :: "string option"
  isConnected :: bool
  container :: "Node list"
  css_accent :: string
  items :: "PortfolioItem list"
  scene :: "ConstellationScene option"
  activeIndex :: "int option"
  document_keydown :: "KeyHandler list"
  next_handler :: nat
  fetches :: "(nat \<times> string) list"
  next_fetch :: nat
  platform :: Platform
  detached_scenes :: "ConstellationScene list"

definition new_SolarPortfolio :: "Platform \<Rightarrow> SolarPortfolio" where
  "new_SolarPortfolio p =
     \<lparr>attr_data_json = None, attr_variant = None, attr_poster = None, attr_accent = None,
      isConnected = False, container = [], css_accent = [], items = [], scene = None,
      activeIndex = None, document_keydown = [], next_handler = 0, fetches = [],
      next_fetch = 0, platform = p, detached_scenes = []\<rparr>"

text \<open>\<^verbatim>\<open>a || d\<close> on an attribute value: \<^verbatim>\<open>null\<close> and the empty string are falsy.\<close>

definition or_default :: "string option \<Rightarrow> string \<Rightarrow> string" where
  "or_default a d = (case a of None \<Rightarrow> d | Some v \<Rightarrow> if v = [] then d else v)"

definition accent :: "SolarPortfolio \<Rightarrow> string" where
  "accent el = or_default (attr_accent el) ''#8C52FF''"

definition variant :: "SolarPortfolio \<Rightarrow> string" where
  "variant el = or_default (attr_variant el) ''constellation''"

definition posterUrl :: "SolarPortfolio \<Rightarrow> string option" where
  "posterUrl el = attr_poster el"

subsection \<open>The card overlay\<close>

definition node_overlay :: "Node \<Rightarrow> Overlay option" where
  "node_overlay n =
     (case n of GridWrap _ _ ov \<Rightarrow> Some ov | ConstellationWrap ov \<Rightarrow> Some ov | _ \<Rightarrow> None)"

text \<open>\<^verbatim>\<open>this.shadow.getElementById("card-overlay")\<close>: the first one in tree order.\<close>

fun getElementById_card_overlay :: "Node list \<Rightarrow> Overlay option" where
  "getElementById_card_overlay [] = None"
| "getElementById_card_overlay (n # ns) =
     (case node_overlay n of Some ov \<Rightarrow> Some ov | None \<Rightarrow> getElementById_card_overlay ns)"

text \<open>Writing to the element that \<open>getElementById_card_overlay\<close> found.\<close>

fun set_card_overlay :: "Overlay \<Rightarrow> Node list \<Rightarrow> Node list" where
  "set_card_overlay ov [] = []"
| "set_card_overlay ov (GridWrap ns cs _ # rest) = GridWrap ns cs ov # rest"
| "set_card_overlay ov (ConstellationWrap _ # rest) = ConstellationWrap ov # rest"
| "set_card_overlay ov (n # rest) = n # set_card_overlay ov rest"

text \<open>\<^verbatim>\<open>this.items[index]\<close>: \<^verbatim>\<open>undefined\<close> outside the array.\<close>

definition item_at :: "PortfolioItem list \<Rightarrow> int \<Rightarrow> PortfolioItem option" where
  "item_at xs i = (if 0 \<le> i \<and> i < int (length xs) then Some (xs ! nat i) else None)"

definition showCard :: "int \<Rightarrow> SolarPortfolio \<Rightarrow> SolarPortfolio" where
  "showCard index el =
     (let el1 = el\<lparr>activeIndex := Some index\<rparr>
      in case item_at (items el1) index of
           None \<Rightarrow> el1
         | Some item \<Rightarrow>
             (case getElementById_card_overlay (container el1) of
                None \<Rightarrow> el1
              | Some overlay \<Rightarrow>
                  let hasPrev = (index > 0);
                      hasNext = (index < int (length (items el1)) - 1);
                      overlay1 = overlay\<lparr>ov_content :=
                                   Some \<lparr>nav_prev = hasPrev, nav_next = hasNext,
                                         card_item = item, nav_index = index\<rparr>\<rparr>;
                      overlay2 = overlay1\<lparr>ov_active := True\<rparr>;
                      overlay3 = overlay2\<lparr>ov_click_listeners := Suc (ov_click_listeners overlay2)\<rparr>;
                      keyHandler = \<lparr>kh_id = next_handler el1, kh_index = index,
                                    kh_hasPrev = hasPrev, kh_hasNext = hasNext\<rparr>;
                      overlay4 = overlay3\<lparr>ov_keyHandler := Some keyHandler\<rparr>
                  in el1\<lparr>container := set_card_overlay overlay4 (container el1),
                         document_keydown := document_keydown el1 @ [keyHandler],
                         next_handler := Suc (next_handler el1)\<rparr>))"

text \<open>
  \<^verbatim>\<open>document.removeEventListener("keydown", h)\<close> removes the registration of that
  function object.
\<close>

definition removeEventListener :: "KeyHandler \<Rightarrow> KeyHandler list \<Rightarrow> KeyHandler list" where
  "removeEventListener h hs = filter (\<lambda>g. kh_id g \<noteq> kh_id h) hs"

definition hideCard :: "SolarPortfolio \<Rightarrow> SolarPortfolio" where
  "hideCard el =
     (let el1 = el\<lparr>activeIndex := None\<rparr>
      in case getElementById_card_overlay (container el1) of
           None \<Rightarrow> el1
         | Some overlay \<Rightarrow>
             let overlay1 = overlay\<lparr>ov_active := False\<rparr>;
                 overlay2 = overlay1\<lparr>ov_content := None\<rparr>
             in (case ov_keyHandler overlay2 of
                   None \<Rightarrow> el1\<lparr>container := set_card_overlay overlay2 (container el1)\<rparr>
                 | Some h \<Rightarrow>
                     el1\<lparr>container :=
                           set_card_overlay (overlay2\<lparr>ov_keyHandler := None\<rparr>) (container el1),
                         document_keydown := removeEventListener h (document_keydown el1)\<rparr>))"

text \<open>The body of the closure \<^verbatim>\<open>keyHandler\<close>: three \<^verbatim>\<open>if\<close>s in a row.\<close>

definition keyHandler :: "KeyHandler \<Rightarrow> key \<Rightarrow> SolarPortfolio \<Rightarrow> SolarPortfolio" where
  "keyHandler h k el =
     (let el1 = (if k = Escape then hideCard el else el);
          el2 = (if k = ArrowLeft \<and> kh_hasPrev h then showCard (kh_index h - 1) el1 else el1)
      in if k = ArrowRight \<and> kh_hasNext h then showCard (kh_index h + 1) el2 else el2)"

text \<open>
  The browser dispatching a \<^verbatim>\<open>keydown\<close> event to \<^verbatim>\<open>document\<close>: the listeners
  registered when the dispatch starts are called in registration order; one removed by an
  earlier listener of the same dispatch is skipped, one added during the dispatch is not
  called.
\<close>

fun invoke_listeners :: "KeyHandler list \<Rightarrow> key \<Rightarrow> SolarPortfolio \<Rightarrow> SolarPortfolio" where
  "invoke_listeners [] k el = el"
| "invoke_listeners (h # hs) k el =
     invoke_listeners hs k
       (if kh_id h \<in> set (map kh_id (document_keydown el)) then keyHandler h k el else el)"

definition keydown :: "key \<Rightarrow> SolarPortfolio \<Rightarrow> SolarPortfolio" where
  "keydown k el = invoke_listeners (document_keydown el) k el"

subsection \<open>The custom element: loading and rendering\<close>

definition updateAccentColor :: "SolarPortfolio \<Rightarrow> SolarPortfolio" where
  "updateAccentColor el = el\<lparr>css_accent := accent el\<rparr>"

definition new_overlay :: Overlay where
  "new_overlay = \<lparr>ov_active = False, ov_content = None, ov_click_listeners = 0,
                   ov_keyHandler = None\<rparr>"

text \<open>The body of the \<^verbatim>\<open>forEach\<close> of \<^verbatim>\<open>renderGrid\<close>; the state is the children of the grid.\<close>

definition new_card :: "PortfolioItem \<Rightarrow> nat \<Rightarrow> GridCard" where
  "new_card item i =
     \<lparr>card_aria_label = title item, card_index = i\<rparr>"

definition card_body :: "PortfolioItem \<Rightarrow> nat \<Rightarrow> GridCard list \<Rightarrow> GridCard list" where
  "card_body item i grid = grid @ [new_card item i]"

definition renderGrid :: "bool \<Rightarrow> SolarPortfolio \<Rightarrow> SolarPortfolio" where
  "renderGrid showWebGLNotice el =
     (let wrap1 = (if showWebGLNotice then [WebGLUnavailable] else []);
          wrap2 = (if prefersReducedMotion (platform el) \<and> variant el \<noteq> ''grid''
                   then wrap1 @ [ReducedMotionDetected] else wrap1);
          grid = forEach card_body (items el) []
      in el\<lparr>container := container el @ [GridWrap wrap2 grid new_overlay]\<rparr>)"

text \<open>
  \<^verbatim>\<open>renderConstellation\<close>; a scene the field still held is overwritten, not destroyed.
\<close>

definition renderConstellation :: "SolarPortfolio \<Rightarrow> SolarPortfolio" where
  "renderConstellation el =
     (let el1 = el\<lparr>container := container el @ [ConstellationWrap new_overlay]\<rparr>
      in el1\<lparr>scene := Some (new_ConstellationScene (items el1) (accent el1)),
             detached_scenes :=
               (case scene el1 of None \<Rightarrow> detached_scenes el1
                | Some old \<Rightarrow> detached_scenes el1 @ [old])\<rparr>)"

definition render :: "SolarPortfolio \<Rightarrow> SolarPortfolio" where
  "render el =
     (let el1 = el\<lparr>container := []\<rparr>;
          useGrid = (variant el1 = ''grid'' \<or> prefersReducedMotion (platform el1)
                     \<or> \<not> isWebGLAvailable (platform el1))
      in if useGrid
         then renderGrid (\<not> isWebGLAvailable (platform el1) \<and> variant el1 \<noteq> ''grid'') el1
         else renderConstellation el1)"

text \<open>
  \<^verbatim>\<open>load\<close> up to its first \<^verbatim>\<open>await\<close>: the request is put in flight. An empty
  attribute value is falsy.
\<close>

definition load :: "SolarPortfolio \<Rightarrow> SolarPortfolio" where
  "load el =
     (let el1 = el\<lparr>container := []\<rparr>;
          el2 = updateAccentColor el1
      in case attr_data_json el2 of
           None \<Rightarrow> el2\<lparr>container := [FallbackNotice NoDataJson]\<rparr>
         | Some jsonUrl \<Rightarrow>
             if jsonUrl = [] then el2\<lparr>container := [FallbackNotice NoDataJson]\<rparr>
             else
               let el3 = (case posterUrl el2 of
                            None \<Rightarrow> el2\<lparr>container := [LoadingMsg]\<rparr>
                          | Some p \<Rightarrow>
                              if p = [] then el2\<lparr>container := [LoadingMsg]\<rparr>
                              else el2\<lparr>container := [PosterImg p]\<rparr>)
               in el3\<lparr>fetches := fetches el3 @ [(next_fetch el3, jsonUrl)],
                      next_fetch := Suc (next_fetch el3)\<rparr>)"

text \<open>
  The \<^verbatim>\<open>try\<close> block of \<^verbatim>\<open>load\<close>, from the settled fetch on: what it throws, or the
  value it assigns to \<^verbatim>\<open>this.items\<close>. \<^verbatim>\<open>resp.ok\<close> is a status from 200 to 299.
  Nothing of the element is read or written between the two \<^verbatim>\<open>await\<close>s, so they are
  one step.
\<close>

definition resp_ok :: "nat \<Rightarrow> bool" where
  "resp_ok status = (200 \<le> status \<and> status \<le> 299)"

definition try_block :: "Response \<Rightarrow> LoadError + PortfolioItem list" where
  "try_block resp =
     (case resp of
        FetchRejected \<Rightarrow> Inl NetworkFailure
      | HttpResponse status body \<Rightarrow>
          if \<not> resp_ok status then Inl (HttpError status)
          else (case body of
                  Unparsable \<Rightarrow> Inl SyntaxError
                | JsonNull \<Rightarrow> Inl TypeError
                | Json data \<Rightarrow>
                    Inr (case data_items data of None \<Rightarrow> [] | Some xs \<Rightarrow> xs)))"

text \<open>\<^verbatim>\<open>load\<close> from the settled fetch to its end: the \<^verbatim>\<open>catch\<close>, or \<^verbatim>\<open>render\<close>.\<close>

definition load_resume :: "Response \<Rightarrow> SolarPortfolio \<Rightarrow> SolarPortfolio" where
  "load_resume resp el =
     (case try_block resp of
        Inl err \<Rightarrow> el\<lparr>container := [FallbackNotice FailedToLoad]\<rparr>
      | Inr xs \<Rightarrow> render (el\<lparr>items := xs\<rparr>))"

subsection \<open>The custom element: callbacks and events\<close>

definition connectedCallback :: "SolarPortfolio \<Rightarrow> SolarPortfolio" where
  "connectedCallback el = load el"

text \<open>\<^verbatim>\<open>this.scene?.destroy(); this.scene = null\<close>.\<close>

definition drop_scene :: "SolarPortfolio \<Rightarrow> SolarPortfolio" where
  "drop_scene el =
     (case scene el of
        None \<Rightarrow> el
      | Some sc \<Rightarrow> el\<lparr>scene := None, detached_scenes := detached_scenes el @ [destroy sc]\<rparr>)"

definition disconnectedCallback :: "SolarPortfolio \<Rightarrow> SolarPortfolio" where
  "disconnectedCallback el = drop_scene el"

definition attributeChangedCallback :: "SolarPortfolio \<Rightarrow> SolarPortfolio" where
  "attributeChangedCallback el = (if isConnected el then load (drop_scene el) else el)"

datatype attr = DataJson | Variant | Poster | Accent

definition setAttribute :: "attr \<Rightarrow> string option \<Rightarrow> SolarPortfolio \<Rightarrow> SolarPortfolio" where
  "setAttribute a v el =
     (case a of
        DataJson \<Rightarrow> el\<lparr>attr_data_json := v\<rparr>
      | Variant \<Rightarrow> el\<lparr>attr_variant := v\<rparr>
      | Poster \<Rightarrow> el\<lparr>attr_poster := v\<rparr>
      | Accent \<Rightarrow> el\<lparr>attr_accent := v\<rparr>)"

text \<open>The cards of the grid on the page.\<close>

fun grid_cards :: "Node list \<Rightarrow> GridCard list" where
  "grid_cards [] = []"
| "grid_cards (GridWrap _ cs _ # rest) = cs @ grid_cards rest"
| "grid_cards (_ # rest) = grid_cards rest"

text \<open>Whether the wrap of the scene, with its canvas and labels, is on the page.\<close>

fun constellation_on_page :: "Node list \<Rightarrow> bool" where
  "constellation_on_page [] = False"
| "constellation_on_page (ConstellationWrap _ # rest) = True"
| "constellation_on_page (_ # rest) = constellation_on_page rest"

text \<open>
  What the user does to the page. A card is clicked, or a key goes down on it (its own
  listener runs, then the event bubbles to \<^verbatim>\<open>document\<close>); the close, previous and
  next buttons exist only in a shown card; a click on the overlay itself reaches it only
  while it has the class \<^verbatim>\<open>active\<close> (its \<^verbatim>\<open>pointer-events\<close> are \<^verbatim>\<open>none\<close>
  otherwise) and runs every click listener added to it; a label of the scene is clicked; the
  canvas is clicked and the ray hits the meshes at the given places of
  \<^verbatim>\<open>thumbnailMeshes\<close>; a key goes down elsewhere.
\<close>

datatype ui_event =
    CardClick nat
  | CardKey nat key
  | CloseClick
  | PrevClick
  | NextClick
  | BackgroundClick
  | LabelClick nat
  | CanvasClick "nat list"
  | KeyDown key

definition card_activate :: "nat \<Rightarrow> SolarPortfolio \<Rightarrow> SolarPortfolio" where
  "card_activate i el =
     (let cs = grid_cards (container el)
      in if i < length cs then showCard (int (card_index (cs ! i))) el else el)"

definition shown_card :: "SolarPortfolio \<Rightarrow> CardView option" where
  "shown_card el =
     (case getElementById_card_overlay (container el) of
        None \<Rightarrow> None
      | Some ov \<Rightarrow> ov_content ov)"

definition ray_hits :: "ConstellationScene \<Rightarrow> nat list \<Rightarrow> Mesh list" where
  "ray_hits sc ks = map (\<lambda>k. thumbnailMeshes sc ! k) (filter (\<lambda>k. k < length (thumbnailMeshes sc)) ks)"

fun ui_step :: "ui_event \<Rightarrow> SolarPortfolio \<Rightarrow> SolarPortfolio" where
  "ui_step (CardClick i) el = card_activate i el"
| "ui_step (CardKey i k) el =
     keydown k (if k = Enter \<or> k = Space then card_activate i el else el)"
| "ui_step CloseClick el =
     (case shown_card el of None \<Rightarrow> el | Some c \<Rightarrow> hideCard el)"
| "ui_step PrevClick el =
     (case shown_card el of
        None \<Rightarrow> el
      | Some c \<Rightarrow> if nav_prev c then showCard (nav_index c - 1) el else el)"
| "ui_step NextClick el =
     (case shown_card el of
        None \<Rightarrow> el
      | Some c \<Rightarrow> if nav_next c then showCard (nav_index c + 1) el else el)"
| "ui_step BackgroundClick el =
     (case getElementById_card_overlay (container el) of
        None \<Rightarrow> el
      | Some ov \<Rightarrow> if ov_active ov then (hideCard ^^ ov_click_listeners ov) el else el)"
| "ui_step (LabelClick j) el =
     (case scene el of
        None \<Rightarrow> el
      | Some sc \<Rightarrow>
          if constellation_on_page (container el)
          then (case label_click sc j of None \<Rightarrow> el | Some i \<Rightarrow> showCard (int i) el)
          else el)"
| "ui_step (CanvasClick ks) el =
     (case scene el of
        None \<Rightarrow> el
      | Some sc \<Rightarrow>
          if constellation_on_page (container el) \<and> click_listening sc
          then (case handleCanvasClick sc (ray_hits sc ks) of
                  None \<Rightarrow> el
                | Some i \<Rightarrow> showCard (int i) el)
          else el)"
| "ui_step (KeyDown k) el = keydown k el"

text \<open>
  Everything that happens to the element: the user's events, the element entering and
  leaving the document, an attribute being set, a fetch in flight settling, and an event of
  the scene the element holds.
\<close>

datatype event =
    UI ui_event
  | Connect
  | Disconnect
  | SetAttribute attr "string option"
  | FetchSettled nat Response
  | SceneEvent scene_event

fun step :: "event \<Rightarrow> SolarPortfolio \<Rightarrow> SolarPortfolio" where
  "step (UI e) el = ui_step e el"
| "step Connect el = connectedCallback (el\<lparr>isConnected := True\<rparr>)"
| "step Disconnect el = disconnectedCallback (el\<lparr>isConnected := False\<rparr>)"
| "step (SetAttribute a v) el = attributeChangedCallback (setAttribute a v el)"
| "step (FetchSettled rid resp) el =
     (if rid \<in> set (map fst (fetches el))
      then load_resume resp (el\<lparr>fetches := filter (\<lambda>r. fst r \<noteq> rid) (fetches el)\<rparr>)
      else el)"
| "step (SceneEvent e) el =
     (case scene el of None \<Rightarrow> el | Some sc \<Rightarrow> el\<lparr>scene := Some (scene_step e sc)\<rparr>)"

definition run :: "event list \<Rightarrow> SolarPortfolio \<Rightarrow> SolarPortfolio" where
  "run evs el = fold step evs el"

subsection \<open>Observations and invariants\<close>

text \<open>
  What holds of a scene from its construction to its teardown: the meshes and labels are
  those built for the items, in order; one frame request is pending, the one \<open>animId\<close>
  names; both listeners are registered.
\<close>

definition scene_inv :: "PortfolioItem list \<Rightarrow> ConstellationScene \<Rightarrow> bool" where
  "scene_inv its sc =
     (sc_items sc = its \<and>
      map userData_index (thumbnailMeshes sc) = map Some [0..<length its] \<and>
      labelElements sc = map (\<lambda>(x, k). new_Label x k) (zip its [0..<length its]) \<and>
      basePositions sc = map (\<lambda>k. spread ! (k mod length spread)) [0..<length its] \<and>
      length (textures sc) = length its \<and>
      stars sc \<noteq> None \<and>
      raf_requested sc = [animId sc] \<and>
      resize_listening sc \<and> click_listening sc)"


definition card_ok :: "nat \<Rightarrow> CardView \<Rightarrow> bool" where
  "card_ok n c =
     (0 \<le> nav_index c \<and> nav_index c < int n \<and>
      (nav_prev c \<longrightarrow> 0 < nav_index c) \<and>
      (nav_next c \<longrightarrow> nav_index c + 1 < int n))"

definition index_ok :: "nat \<Rightarrow> int option \<Rightarrow> bool" where
  "index_ok n a = (case a of None \<Rightarrow> True | Some i \<Rightarrow> 0 \<le> i \<and> i < int n)"


definition shown_ok :: "nat \<Rightarrow> CardView option \<Rightarrow> bool" where
  "shown_ok n v = (case v of None \<Rightarrow> True | Some c \<Rightarrow> card_ok n c)"

definition scene_ok :: "nat \<Rightarrow> bool \<Rightarrow> ConstellationScene option \<Rightarrow> bool" where
  "scene_ok n on_page s =
     (case s of
        None \<Rightarrow> True
      | Some sc \<Rightarrow>
          on_page \<longrightarrow> scene_inv (sc_items sc) sc \<and> length (sc_items sc) \<le> n)"







text \<open>
  What is on the page: whether the container holds the grid or the scene (and nothing
  else), and the notices shown.
\<close>

fun grid_layout :: "Node list \<Rightarrow> bool" where
  "grid_layout [GridWrap _ _ _] = True"
| "grid_layout _ = False"

fun scene_layout :: "Node list \<Rightarrow> bool" where
  "scene_layout [ConstellationWrap _] = True"
| "scene_layout _ = False"

fun page_notices :: "Node list \<Rightarrow> notice list" where
  "page_notices [] = []"
| "page_notices (FallbackNotice n # rest) = n # page_notices rest"
| "page_notices (GridWrap ns _ _ # rest) = ns @ page_notices rest"
| "page_notices (_ # rest) = page_notices rest"

subsection \<open>Sample inputs\<close>

definition sample_item :: "string \<Rightarrow> PortfolioItem" where
  "sample_item t = \<lparr>item_id = t, title = t, description = ''d'', item_image = ''i.png'',
                     tags = [''x''], url = ''u''\<rparr>"

definition webgl_platform :: Platform where
  "webgl_platform = \<lparr>has_WebGLRenderingContext = True, getContext_webgl = Some True,
                      getContext_experimental = None, reduced_motion_matches = False\<rparr>"

definition no_webgl_platform :: Platform where
  "no_webgl_platform = \<lparr>has_WebGLRenderingContext = False, getContext_webgl = None,
                      getContext_experimental = None, reduced_motion_matches = False\<rparr>"

definition ok_response :: "PortfolioItem list \<Rightarrow> Response" where
  "ok_response xs = HttpResponse 200 (Json (PortfolioData (Some xs)))"

definition grid_element :: "PortfolioItem list \<Rightarrow> SolarPortfolio" where
  "grid_element xs = (new_SolarPortfolio webgl_platform)\<lparr>attr_variant := Some ''grid'', items := xs\<rparr>"

definition scene_element :: "PortfolioItem list \<Rightarrow> SolarPortfolio" where
  "scene_element xs = (new_SolarPortfolio webgl_platform)\<lparr>items := xs\<rparr>"

definition two_item_scene :: ConstellationScene where
  "two_item_scene =
     scene_run [TextureLoaded 0, AnimationFrame 1, TextureFailed 1]
       (new_ConstellationScene [sample_item ''A'', sample_item ''B''] ''#8C52FF'')"

definition loaded_grid :: "PortfolioItem list \<Rightarrow> SolarPortfolio" where
  "loaded_grid xs =
     run [SetAttribute DataJson (Some ''portfolio.json''), SetAttribute Variant (Some ''grid''),
          Connect, FetchSettled 0 (ok_response xs)]
       (new_SolarPortfolio webgl_platform)"

definition three_items :: "PortfolioItem list" where
  "three_items = [sample_item ''A'', sample_item ''B'', sample_item ''C'']"

definition two_loads :: "event list" where
  "two_loads =
     [SetAttribute DataJson (Some ''a.json''), SetAttribute Variant (Some ''grid''), Connect,
      SetAttribute DataJson (Some ''b.json'')]"



section \<open>Properties\<close>

subsection \<open>forEach and the construction of a scene\<close>

lemma forEach_from_frame:
  "(\<And>x i s. g (f x i s) = g s) \<Longrightarrow> g (forEach_from i f xs s) = g s"
  by (induction xs arbitrary: i s) auto

lemma upt_shift: "[i..<Suc (i + n)] = i # [Suc i..<Suc (i + n)]"
  by (simp add: upt_conv_Cons)

lemma thumbs_base: "basePositions (forEach_from i thumbnail_body xs sc) =
   basePositions sc @ map (\<lambda>k. spread ! (k mod length spread)) [i..<i + length xs]"
  by (induction xs arbitrary: i sc) (simp_all add: thumbnail_body_def Let_def upt_shift del: upt_Suc)

lemma thumbs_meshes: "thumbnailMeshes (forEach_from i thumbnail_body xs sc) =
   thumbnailMeshes sc @ map (\<lambda>k. new_Mesh (spread ! (k mod length spread)) k) [i..<i + length xs]"
  by (induction xs arbitrary: i sc) (simp_all add: thumbnail_body_def Let_def upt_shift del: upt_Suc)

lemma thumbs_textures: "textures (forEach_from i thumbnail_body xs sc) =
   textures sc @ replicate (length xs) None"
  by (induction xs arbitrary: i sc) (auto simp: thumbnail_body_def Let_def replicate_app_Cons_same)

lemma labels_from: "labelElements (forEach_from i label_body xs sc) =
   labelElements sc @ map (\<lambda>(x, k). new_Label x k) (zip xs [i..<i + length xs])"
  by (induction xs arbitrary: i sc) (simp_all add: label_body_def Let_def upt_shift del: upt_Suc)

lemma cards_from: "forEach_from i card_body xs cs =
   cs @ map (\<lambda>(x, k). new_card x k) (zip xs [i..<i + length xs])"
  by (induction xs arbitrary: i cs) (simp_all add: card_body_def upt_shift del: upt_Suc)

lemma thumbs_frame [simp]:
  "sc_items (forEach_from i thumbnail_body xs sc) = sc_items sc"
  "labelElements (forEach_from i thumbnail_body xs sc) = labelElements sc"
  "stars (forEach_from i thumbnail_body xs sc) = stars sc"
  "animId (forEach_from i thumbnail_body xs sc) = animId sc"
  "raf_requested (forEach_from i thumbnail_body xs sc) = raf_requested sc"
  "raf_next (forEach_from i thumbnail_body xs sc) = raf_next sc"
  "accentColor (forEach_from i thumbnail_body xs sc) = accentColor sc"
  by (rule forEach_from_frame, simp add: thumbnail_body_def Let_def)+

lemma labels_frame [simp]:
  "sc_items (forEach_from i label_body xs sc) = sc_items sc"
  "thumbnailMeshes (forEach_from i label_body xs sc) = thumbnailMeshes sc"
  "basePositions (forEach_from i label_body xs sc) = basePositions sc"
  "textures (forEach_from i label_body xs sc) = textures sc"
  "stars (forEach_from i label_body xs sc) = stars sc"
  "animId (forEach_from i label_body xs sc) = animId sc"
  "raf_requested (forEach_from i label_body xs sc) = raf_requested sc"
  "raf_next (forEach_from i label_body xs sc) = raf_next sc"
  by (rule forEach_from_frame, simp add: label_body_def Let_def)+

lemma new_scene_meshes:
  "thumbnailMeshes (new_ConstellationScene its a) =
     map (\<lambda>k. new_Mesh (spread ! (k mod length spread)) k) [0..<length its]"
  by (simp add: new_ConstellationScene_def Let_def animate_def createLabels_def
        createThumbnails_def createStars_def forEach_def thumbs_meshes)

lemma new_scene_labels:
  "labelElements (new_ConstellationScene its a) =
     map (\<lambda>(x, k). new_Label x k) (zip its [0..<length its])"
  by (simp add: new_ConstellationScene_def Let_def animate_def createLabels_def
        createThumbnails_def createStars_def forEach_def labels_from)

lemma new_scene_base:
  "basePositions (new_ConstellationScene its a) =
     map (\<lambda>k. spread ! (k mod length spread)) [0..<length its]"
  by (simp add: new_ConstellationScene_def Let_def animate_def createLabels_def
        createThumbnails_def createStars_def forEach_def thumbs_base)

lemma new_scene_inv: "scene_inv its (new_ConstellationScene its a)"
  unfolding scene_inv_def new_scene_meshes new_scene_labels new_scene_base
  by (simp add: new_ConstellationScene_def Let_def animate_def createLabels_def
        createThumbnails_def createStars_def forEach_def thumbs_textures new_Mesh_def comp_def)

lemma map_userData_update:
  "i < length ms \<Longrightarrow> userData_index m' = userData_index (ms ! i) \<Longrightarrow>
   map userData_index (ms[i := m']) = map userData_index ms"
  by (simp add: map_update list_update_same_conv)

lemma scene_step_inv: "scene_inv its sc \<Longrightarrow> scene_inv its (scene_step e sc)"
proof (cases e)
  case (AnimationFrame fid)
  assume "scene_inv its sc"
  then show ?thesis unfolding AnimationFrame
    by (auto simp: scene_inv_def animate_def)
next
  case (TextureLoaded i)
  assume inv: "scene_inv its sc"
  then have len: "length (thumbnailMeshes sc) = length its"
    unfolding scene_inv_def by (metis length_map length_upt minus_nat.diff_0)
  show ?thesis using inv len unfolding TextureLoaded
    by (auto simp: scene_inv_def texture_loaded_def Let_def map_userData_update)
next
  case (TextureFailed i)
  assume inv: "scene_inv its sc"
  then have len: "length (thumbnailMeshes sc) = length its"
    unfolding scene_inv_def by (metis length_map length_upt minus_nat.diff_0)
  show ?thesis using inv len unfolding TextureFailed
    by (auto simp: scene_inv_def texture_failed_def Let_def map_userData_update)
qed

lemma scene_run_inv: "scene_inv its sc \<Longrightarrow> scene_inv its (scene_run evs sc)"
  unfolding scene_run_def
  by (induction evs arbitrary: sc) (auto intro: scene_step_inv)

lemma scene_inv_length:
  "scene_inv its sc \<Longrightarrow> length (thumbnailMeshes sc) = length its"
  unfolding scene_inv_def by (metis length_map length_upt minus_nat.diff_0)

lemma zip_upt_map_fst: "map (\<lambda>(x, k). f x) (zip xs [0..<length xs]) = map f xs"
  by (rule nth_equalityI) auto

lemma zip_upt_map_snd: "map (\<lambda>(x, k). g k) (zip xs [0..<length xs]) = map g [0..<length xs]"
  by (rule nth_equalityI) auto

lemma length_spread: "length spread = 10"
  by (simp add: spread_def)

subsection \<open>Rendering\<close>

lemma render_container:
  "container (render el) =
     (if prefersReducedMotion (platform el) \<or> variant el = ''grid'' \<or> \<not> isWebGLAvailable (platform el)
      then [GridWrap ((if \<not> isWebGLAvailable (platform el) \<and> variant el \<noteq> ''grid''
                        then [WebGLUnavailable] else []) @
                      (if prefersReducedMotion (platform el) \<and> variant el \<noteq> ''grid''
                        then [ReducedMotionDetected] else []))
                     (map (\<lambda>(x, k). new_card x k) (zip (items el) [0..<length (items el)]))
                     new_overlay]
      else [ConstellationWrap new_overlay])"
  by (auto simp: render_def renderGrid_def renderConstellation_def Let_def variant_def
        forEach_def cards_from)

lemma render_scene:
  "\<not> (prefersReducedMotion (platform el) \<or> variant el = ''grid'' \<or> \<not> isWebGLAvailable (platform el))
   \<Longrightarrow> scene (render el) = Some (new_ConstellationScene (items el) (accent el))"
  by (simp add: render_def renderConstellation_def Let_def variant_def accent_def)

lemma render_items: "items (render el) = items el"
  by (simp add: render_def renderGrid_def renderConstellation_def Let_def)

subsection \<open>Teardown\<close>







subsection \<open>The page invariant\<close>

lemma index_ok_simps [simp]:
  "index_ok n None"
  "index_ok n (Some i) = (0 \<le> i \<and> i < int n)"
  by (simp_all add: index_ok_def)

lemma shown_ok_simps [simp]:
  "shown_ok n None"
  "shown_ok n (Some c) = card_ok n c"
  by (simp_all add: shown_ok_def)

lemma scene_ok_simps [simp]:
  "scene_ok n b None"
  "scene_ok n False s"
  "scene_ok n True (Some sc) = (scene_inv (sc_items sc) sc \<and> length (sc_items sc) \<le> n)"
  by (simp_all add: scene_ok_def split: option.splits)




lemma get_set_overlay:
  "getElementById_card_overlay (set_card_overlay ov c) =
     (case getElementById_card_overlay c of None \<Rightarrow> None | Some _ \<Rightarrow> Some ov)"
  by (induction ov c rule: set_card_overlay.induct) (auto simp: node_overlay_def)















lemma scene_inv_nth_userData:
  assumes "scene_inv its sc" "k < length its"
  shows "userData_index (thumbnailMeshes sc ! k) = Some k"
proof -
  have "map userData_index (thumbnailMeshes sc) ! k = map Some [0..<length its] ! k"
    using assms(1) by (simp add: scene_inv_def)
  then show ?thesis using assms(2) scene_inv_length[OF assms(1)] by simp
qed

lemma scene_inv_canvas:
  assumes inv: "scene_inv its sc"
    and sub: "set hits \<subseteq> set (thumbnailMeshes sc)"
    and h: "handleCanvasClick sc hits = Some idx"
  shows "idx < length its"
proof -
  from h obtain m rest where hits: "hits = m # rest" and m: "userData_index m = Some idx"
    by (auto simp: handleCanvasClick_def split: list.splits option.splits)
  from sub hits have "m \<in> set (thumbnailMeshes sc)" by simp
  then obtain k where k: "k < length (thumbnailMeshes sc)" and mk: "thumbnailMeshes sc ! k = m"
    by (auto simp: in_set_conv_nth)
  from k scene_inv_length[OF inv] scene_inv_nth_userData[OF inv, of k] mk m show ?thesis by simp
qed

lemma scene_inv_label:
  assumes "scene_inv its sc" "label_click sc j = Some idx"
  shows "idx = j \<and> idx < length its"
  using assms by (auto simp: label_click_def scene_inv_def new_Label_def split: if_splits)











lemma drop_scene_items: "items (drop_scene el) = items el"
  by (simp add: drop_scene_def split: option.splits)


lemma render_scene_grid:
  "prefersReducedMotion (platform el) \<or> variant el = ''grid'' \<or> \<not> isWebGLAvailable (platform el)
   \<Longrightarrow> scene (render el) = scene el"
  by (auto simp: render_def renderGrid_def Let_def variant_def)











subsection \<open>The card overlay and its key listeners\<close>




lemma showCard_listeners:
  assumes "item_at (items el) i \<noteq> None" "getElementById_card_overlay (container el) \<noteq> None"
  shows "length (document_keydown (showCard i el)) = Suc (length (document_keydown el))"
  using assms by (auto simp: showCard_def Let_def)

lemma showCard_controls:
  assumes "0 \<le> i" "i < int (length (items el))"
    and "getElementById_card_overlay (container el) \<noteq> None"
  shows "\<exists>c. shown_card (showCard i el) = Some c \<and> nav_index c = i \<and>
             nav_prev c = (0 < i) \<and> nav_next c = (i < int (length (items el)) - 1)"
  using assms by (auto simp: showCard_def Let_def item_at_def shown_card_def get_set_overlay)

lemma keyHandler_boundary:
  "\<not> kh_hasPrev h \<Longrightarrow> keyHandler h ArrowLeft el = el"
  "\<not> kh_hasNext h \<Longrightarrow> keyHandler h ArrowRight el = el"
  by (simp_all add: keyHandler_def Let_def)

lemma single_listener_boundary:
  assumes "document_keydown el = [h]"
  shows "\<not> kh_hasPrev h \<Longrightarrow> keydown ArrowLeft el = el"
    and "\<not> kh_hasNext h \<Longrightarrow> keydown ArrowRight el = el"
  using assms by (simp_all add: keydown_def keyHandler_boundary)

section \<open>The claims\<close>

text \<open>
  C1. Rendering mode resolution: for every value of the \<^verbatim>\<open>variant\<close> attribute, of the
  reduced-motion preference and of WebGL availability, \<^verbatim>\<open>render\<close> puts the grid on the
  page if and only if reduced motion is preferred, or the variant is "grid", or WebGL is
  unavailable; otherwise it puts the scene there and constructs a
  \<^verbatim>\<open>ConstellationScene\<close>; and when WebGL is unavailable and the variant is
  "constellation", the grid carries the "WebGL is unavailable" notice.
\<close>

theorem rendering_mode_resolution:
  "(grid_layout (container (render el)) \<longleftrightarrow>
      prefersReducedMotion (platform el) \<or> variant el = ''grid'' \<or> \<not> isWebGLAvailable (platform el))
   \<and> (scene_layout (container (render el)) \<longleftrightarrow>
      \<not> (prefersReducedMotion (platform el) \<or> variant el = ''grid'' \<or> \<not> isWebGLAvailable (platform el)))
   \<and> (scene_layout (container (render el)) \<longrightarrow>
        scene (render el) = Some (new_ConstellationScene (items el) (accent el)))
   \<and> (\<not> isWebGLAvailable (platform el) \<and> variant el = ''constellation'' \<longrightarrow>
        grid_layout (container (render el)) \<and>
        WebGLUnavailable \<in> set (page_notices (container (render el))))"
proof -
  show ?thesis
  proof (cases "prefersReducedMotion (platform el) \<or> variant el = ''grid'' \<or> \<not> isWebGLAvailable (platform el)")
    case True
    then show ?thesis by (auto simp: render_container)
  next
    case False
    then show ?thesis using render_scene[OF False] by (simp add: render_container)
  qed
qed

theorem rendering_mode_resolution_witness:
  "scene_layout (container (render (new_SolarPortfolio webgl_platform)))
   \<and> scene (render (new_SolarPortfolio webgl_platform)) = Some (new_ConstellationScene [] ''#8C52FF'')
   \<and> \<not> isWebGLAvailable (platform (new_SolarPortfolio no_webgl_platform))
   \<and> variant (new_SolarPortfolio no_webgl_platform) = ''constellation''
   \<and> grid_layout (container (render (new_SolarPortfolio no_webgl_platform)))
   \<and> WebGLUnavailable \<in> set (page_notices (container (render (new_SolarPortfolio no_webgl_platform))))"
  using rendering_mode_resolution[of "new_SolarPortfolio webgl_platform"]
        rendering_mode_resolution[of "new_SolarPortfolio no_webgl_platform"]
  by (simp add: new_SolarPortfolio_def webgl_platform_def no_webgl_platform_def
        isWebGLAvailable_def prefersReducedMotion_def variant_def accent_def or_default_def)

text \<open>
  C2. Exactly one document-level key listener at any time: the claim fails on the code.
  \<^verbatim>\<open>showCard\<close> registers a new \<^verbatim>\<open>keyHandler\<close> each time and overwrites the
  overlay's \<^verbatim>\<open>_keyHandler\<close> without removing the one it held, and \<^verbatim>\<open>hideCard\<close>
  removes only the one the overlay holds. With two items in the grid: after a click on
  card 0 one listener is registered; after a click on the next button two are; after the
  close button one is still registered although no card is shown.
\<close>

theorem key_listeners_accumulate:
  "map kh_index (document_keydown (loaded_grid [sample_item ''A'', sample_item ''B''])) = []
   \<and> map kh_index (document_keydown
         (run [UI (CardClick 0)] (loaded_grid [sample_item ''A'', sample_item ''B'']))) = [0]
   \<and> map kh_index (document_keydown
         (run [UI (CardClick 0), UI NextClick]
            (loaded_grid [sample_item ''A'', sample_item ''B'']))) = [0, 1]
   \<and> map kh_index (document_keydown
         (run [UI (CardClick 0), UI NextClick, UI CloseClick]
            (loaded_grid [sample_item ''A'', sample_item ''B'']))) = [0]
   \<and> shown_card (run [UI (CardClick 0), UI NextClick, UI CloseClick]
            (loaded_grid [sample_item ''A'', sample_item ''B''])) = None"
  by code_simp




text \<open>
  C4. Load re-invocation safety. As stated the claim fails: \<^verbatim>\<open>load\<close> has no generation
  counter and cancels nothing. Two loads are started, for \<^verbatim>\<open>a.json\<close> and then for
  \<^verbatim>\<open>b.json\<close>; the later one settles first and the element holds its item; then the
  earlier one settles and its item replaces it.
\<close>

theorem overlapping_loads_counterexample:
  "fetches (run two_loads (new_SolarPortfolio webgl_platform)) = [(0, ''a.json''), (1, ''b.json'')]
   \<and> items (run (two_loads @ [FetchSettled 1 (ok_response [sample_item ''B''])])
              (new_SolarPortfolio webgl_platform)) = [sample_item ''B'']
   \<and> items (run (two_loads @ [FetchSettled 1 (ok_response [sample_item ''B'']),
                               FetchSettled 0 (ok_response [sample_item ''A''])])
              (new_SolarPortfolio webgl_platform)) = [sample_item ''A'']"
  by code_simp

text \<open>
  C4, amended. Whenever a fetch in flight settles, whatever loads were started or have
  settled since it was started, its outcome replaces the state: on success its items become
  the item list and are rendered, on failure the page shows the failure notice. The state
  after overlapping loads is that of the response that settles last.
\<close>

theorem settled_response_replaces_items:
  assumes "rid \<in> set (map fst (fetches el))"
  shows "(try_block resp = Inr xs \<longrightarrow>
            items (step (FetchSettled rid resp) el) = xs \<and>
            container (step (FetchSettled rid resp) el) = container (render (el\<lparr>items := xs\<rparr>)))
       \<and> (try_block resp = Inl err \<longrightarrow>
            container (step (FetchSettled rid resp) el) = [FallbackNotice FailedToLoad])"
  using assms
  by (simp add: load_resume_def render_items render_container variant_def)

theorem settled_response_replaces_items_witness:
  "0 \<in> set (map fst (fetches (run (two_loads @ [FetchSettled 1 (ok_response [sample_item ''B''])])
              (new_SolarPortfolio webgl_platform))))
   \<and> try_block (ok_response [sample_item ''A'']) = Inr [sample_item ''A'']
   \<and> items (step (FetchSettled 0 (ok_response [sample_item ''A'']))
         (run (two_loads @ [FetchSettled 1 (ok_response [sample_item ''B''])])
              (new_SolarPortfolio webgl_platform))) = [sample_item ''A'']
   \<and> try_block (HttpResponse 404 Unparsable) = Inl (HttpError 404)
   \<and> container (step (FetchSettled 0 (HttpResponse 404 Unparsable))
         (run (two_loads @ [FetchSettled 1 (ok_response [sample_item ''B''])])
              (new_SolarPortfolio webgl_platform))) = [FallbackNotice FailedToLoad]"
proof -
  have a: "0 \<in> set (map fst (fetches (run (two_loads @ [FetchSettled 1 (ok_response [sample_item ''B''])])
              (new_SolarPortfolio webgl_platform))))"
    by code_simp
  have b: "try_block (ok_response [sample_item ''A'']) = Inr [sample_item ''A'']"
    by code_simp
  have c: "try_block (HttpResponse 404 Unparsable) = Inl (HttpError 404)"
    by code_simp
  show ?thesis
    using b c a
      settled_response_replaces_items[OF a, of "ok_response [sample_item ''A'']"
        "[sample_item ''A'']" "HttpError 404"]
      settled_response_replaces_items[OF a, of "HttpResponse 404 Unparsable" "[]" "HttpError 404"]
    by simp
qed

text \<open>
  C5. Boundary behaviour of the overlay: the controls are as claimed
  (\<open>showCard_controls\<close>), and the key handler of the card at a boundary does nothing on
  the arrow pointing outwards (\<open>keyHandler_boundary\<close>, \<open>single_listener_boundary\<close>). But
  the listeners left registered by earlier cards (C2) still run. With three items in the
  grid: card 2 is opened, the previous button leads to card 1, the close button removes the
  listener of card 1 only, and card 0 is opened. The overlay shows card 0 with no previous
  button, the listeners of cards 2 and 0 are registered, and the left arrow makes the
  listener of card 2 open card 1: the selected index changes from 0 to 1.
\<close>

theorem stale_listener_moves_selection:
  "activeIndex (run [UI (CardClick 2), UI PrevClick, UI CloseClick, UI (CardClick 0)]
                  (loaded_grid three_items)) = Some 0
   \<and> map nav_prev
         (case shown_card (run [UI (CardClick 2), UI PrevClick, UI CloseClick, UI (CardClick 0)]
                             (loaded_grid three_items)) of
            None \<Rightarrow> [] | Some c \<Rightarrow> [c]) = [False]
   \<and> map kh_index
         (document_keydown (run [UI (CardClick 2), UI PrevClick, UI CloseClick, UI (CardClick 0)]
                             (loaded_grid three_items))) = [2, 0]
   \<and> activeIndex (run [UI (CardClick 2), UI PrevClick, UI CloseClick, UI (CardClick 0),
                        UI (KeyDown ArrowLeft)]
                  (loaded_grid three_items)) = Some 1"
  by code_simp

text \<open>
  C6. Loader result mapping: a status outside 200..299 and a body that does not parse both
  throw inside the \<^verbatim>\<open>try\<close> block; whatever is thrown there is caught, and the page
  then shows the "Failed to load portfolio data." notice and no card; a successful response
  whose document has no \<^verbatim>\<open>items\<close> field gives the empty item list, renders no card and
  shows no failure notice.
\<close>

theorem loader_result_mapping:
  "(\<not> resp_ok status \<longrightarrow> try_block (HttpResponse status body) = Inl (HttpError status))
   \<and> (resp_ok status \<longrightarrow> try_block (HttpResponse status Unparsable) = Inl SyntaxError)
   \<and> (try_block resp = Inl err \<longrightarrow>
        container (load_resume resp el) = [FallbackNotice FailedToLoad] \<and>
        grid_cards (container (load_resume resp el)) = [])
   \<and> (resp_ok status \<longrightarrow>
        try_block (HttpResponse status (Json (PortfolioData None))) = Inr [] \<and>
        items (load_resume (HttpResponse status (Json (PortfolioData None))) el) = [] \<and>
        grid_cards (container (load_resume (HttpResponse status (Json (PortfolioData None))) el)) = [] \<and>
        FailedToLoad \<notin> set (page_notices (container (load_resume (HttpResponse status (Json (PortfolioData None))) el))))"
  by (auto simp: try_block_def load_resume_def render_container render_items)

theorem loader_result_mapping_witness:
  "\<not> resp_ok 404
   \<and> try_block (HttpResponse 404 Unparsable) = Inl (HttpError 404)
   \<and> resp_ok 200
   \<and> try_block (HttpResponse 200 Unparsable) = Inl SyntaxError
   \<and> container (load_resume (HttpResponse 404 Unparsable) (new_SolarPortfolio webgl_platform))
        = [FallbackNotice FailedToLoad]
   \<and> grid_cards (container (load_resume (HttpResponse 404 Unparsable) (new_SolarPortfolio webgl_platform))) = []
   \<and> items (load_resume (HttpResponse 200 (Json (PortfolioData None))) (new_SolarPortfolio webgl_platform)) = []"
  using loader_result_mapping[of 404 Unparsable "HttpResponse 404 Unparsable" "HttpError 404"
          "new_SolarPortfolio webgl_platform"]
        loader_result_mapping[of 200 Unparsable "HttpResponse 200 Unparsable" SyntaxError
          "new_SolarPortfolio webgl_platform"]
  by (simp add: resp_ok_def)

text \<open>
  C7. Render cardinality and order: when \<^verbatim>\<open>render\<close> puts the grid on the page there
  is exactly one card per item, the \<open>k\<close>-th card labelled with the title of the \<open>k\<close>-th
  item and bound to index \<open>k\<close>; when it puts the scene there, the scene has exactly one mesh and one label
  per item, the \<open>k\<close>-th mesh carrying index \<open>k\<close> and the \<open>k\<close>-th label the title of the
  \<open>k\<close>-th item and index \<open>k\<close>.
\<close>

theorem render_cardinality_and_order:
  "(grid_layout (container (render el)) \<longrightarrow>
      length (grid_cards (container (render el))) = length (items el) \<and>
      map card_aria_label (grid_cards (container (render el))) = map title (items el) \<and>
      map card_index (grid_cards (container (render el))) = [0..<length (items el)])
   \<and> (scene_layout (container (render el)) \<longrightarrow>
      (\<exists>sc. scene (render el) = Some sc \<and>
        length (thumbnailMeshes sc) = length (items el) \<and>
        map userData_index (thumbnailMeshes sc) = map Some [0..<length (items el)] \<and>
        length (labelElements sc) = length (items el) \<and>
        map label_textContent (labelElements sc) = map title (items el) \<and>
        map label_click_index (labelElements sc) = [0..<length (items el)]))"
proof (cases "prefersReducedMotion (platform el) \<or> variant el = ''grid'' \<or> \<not> isWebGLAvailable (platform el)")
  case True
  then show ?thesis
    by (simp add: render_container comp_def case_prod_unfold new_card_def
          zip_upt_map_fst[unfolded case_prod_unfold] zip_upt_map_snd[unfolded case_prod_unfold])
next
  case False
  have sc: "scene (render el) = Some (new_ConstellationScene (items el) (accent el))"
    using render_scene[OF False] .
  have g: "\<not> grid_layout (container (render el))"
    using False by (simp add: render_container)
  show ?thesis using g
    by (simp add: sc new_scene_meshes new_scene_labels comp_def case_prod_unfold new_Mesh_def
          new_Label_def zip_upt_map_fst[unfolded case_prod_unfold]
          zip_upt_map_snd[unfolded case_prod_unfold])
qed

theorem render_cardinality_and_order_witness:
  "grid_layout (container (render (grid_element [sample_item ''A'', sample_item ''B''])))
   \<and> map card_aria_label (grid_cards (container (render (grid_element [sample_item ''A'', sample_item ''B''])))) = [''A'', ''B'']
   \<and> map card_index (grid_cards (container (render (grid_element [sample_item ''A'', sample_item ''B''])))) = [0, 1]
   \<and> scene_layout (container (render (scene_element [sample_item ''A'', sample_item ''B''])))
   \<and> (\<exists>sc. scene (render (scene_element [sample_item ''A'', sample_item ''B''])) = Some sc
         \<and> map userData_index (thumbnailMeshes sc) = [Some 0, Some 1]
         \<and> map label_textContent (labelElements sc) = [''A'', ''B''])"
proof -
  have g: "grid_layout (container (render (grid_element [sample_item ''A'', sample_item ''B''])))"
    by code_simp
  have s: "scene_layout (container (render (scene_element [sample_item ''A'', sample_item ''B''])))"
    by code_simp
  have u: "[0..<2] = [0, Suc 0]" by code_simp
  show ?thesis
    using render_cardinality_and_order[of "grid_element [sample_item ''A'', sample_item ''B'']"]
          render_cardinality_and_order[of "scene_element [sample_item ''A'', sample_item ''B'']"]
          g s
    by (auto simp: grid_element_def scene_element_def sample_item_def u)
qed



text \<open>
  C9. Cyclic base layout: the layout table has 10 entries, and in every scene, at any time
  after its construction, the base position of the item at index \<open>i\<close> is entry
  \<open>i mod 10\<close> of the table. The list of base positions is a function of the number of
  items alone: the items' contents do not occur in it.
\<close>

theorem cyclic_base_layout:
  "length spread = 10
   \<and> basePositions (scene_run evs (new_ConstellationScene its a)) =
       map (\<lambda>i. spread ! (i mod 10)) [0..<length its]
   \<and> (\<forall>i < length its.
        basePositions (scene_run evs (new_ConstellationScene its a)) ! i = spread ! (i mod 10))"
proof -
  have "scene_inv its (scene_run evs (new_ConstellationScene its a))"
    by (rule scene_run_inv) (rule new_scene_inv)
  then have "basePositions (scene_run evs (new_ConstellationScene its a)) =
       map (\<lambda>i. spread ! (i mod 10)) [0..<length its]"
    by (simp add: scene_inv_def length_spread)
  then show ?thesis by (simp add: length_spread)
qed

theorem cyclic_base_layout_witness:
  "(10::nat) < length (replicate 11 (sample_item ''A''))
   \<and> basePositions (scene_run [] (new_ConstellationScene (replicate 11 (sample_item ''A'')) ''#8C52FF'')) ! 10
       = (-1.8, 0.8, -1.5)
   \<and> basePositions (scene_run [] (new_ConstellationScene (replicate 11 (sample_item ''A'')) ''#8C52FF'')) ! 0
       = (-1.8, 0.8, -1.5)"
  using cyclic_base_layout[of "[]" "replicate 11 (sample_item ''A'')" "''#8C52FF''"]
  by (simp add: spread_def)

text \<open>
  C10. Every index given to the selection callback is a valid index of the items: in every
  scene, at any time after its construction, a click on the canvas whose ray hits meshes of
  the scene reports an index below the number of items, and a click on the \<open>j\<close>-th label
  reports \<open>j\<close>; the mesh and the label at place \<open>k\<close> carry the index \<open>k\<close>.
\<close>

theorem selection_callback_index_valid:
  assumes "sc = scene_run evs (new_ConstellationScene its a)"
  shows "(set hits \<subseteq> set (thumbnailMeshes sc) \<and> handleCanvasClick sc hits = Some idx
            \<longrightarrow> idx < length its)
       \<and> (label_click sc j = Some idx \<longrightarrow> idx = j \<and> idx < length its)
       \<and> (\<forall>k < length its. userData_index (thumbnailMeshes sc ! k) = Some k
                             \<and> label_click_index (labelElements sc ! k) = k)"
proof -
  have inv: "scene_inv its sc"
    unfolding assms by (rule scene_run_inv) (rule new_scene_inv)
  have lab_nth: "label_click_index (labelElements sc ! k) = k" if "k < length its" for k
    using that inv by (simp add: scene_inv_def new_Label_def)
  show ?thesis
    using scene_inv_canvas[OF inv] scene_inv_label[OF inv] scene_inv_nth_userData[OF inv] lab_nth
    by blast
qed

theorem selection_callback_index_valid_witness:
  "set [thumbnailMeshes two_item_scene ! 1] \<subseteq> set (thumbnailMeshes two_item_scene)
   \<and> handleCanvasClick two_item_scene [thumbnailMeshes two_item_scene ! 1] = Some 1
   \<and> label_click two_item_scene 1 = Some 1
   \<and> (1::nat) < length [sample_item ''A'', sample_item ''B'']
   \<and> userData_index (thumbnailMeshes two_item_scene ! 0) = Some 0"
proof -
  have a: "set [thumbnailMeshes two_item_scene ! 1] \<subseteq> set (thumbnailMeshes two_item_scene)"
    by code_simp
  have b: "handleCanvasClick two_item_scene [thumbnailMeshes two_item_scene ! 1] = Some 1"
    by code_simp
  have c: "label_click two_item_scene 1 = Some 1"
    by code_simp
  show ?thesis
    using a b c
      selection_callback_index_valid[OF two_item_scene_def,
        of "[thumbnailMeshes two_item_scene ! 1]" 1 1]
    by simp
qed

end
